theory Spec2Isabelle
  imports Complex_Main
begin

section \<open>Data model of \<open>person_detect.py\<close>\<close>

text \<open>
  The exceptions of the Python run time that the modelled code can raise, as values.
  \<open>OSError\<close> and \<open>ValueError\<close> stand for what \<open>np.load\<close> raises on a missing or
  malformed file.
\<close>

datatype py_error = KeyError | UnboundLocalError | ZeroDivisionError | OSError | ValueError

text \<open>
  A zone (an entry of \<open>Queue.queues\<close>) and a detection (a tuple appended by
  \<open>preprocess_outputs\<close>) are both four pixel coordinates
  \<open>(x_min, y_min, x_max, y_max)\<close>. \<open>idx0\<close> and \<open>idx2\<close> are the subscripts
  \<open>[0]\<close> and \<open>[2]\<close> that \<open>check_coords\<close> reads.
\<close>

type_synonym box = "int \<times> int \<times> int \<times> int"

fun idx0 :: "box \<Rightarrow> int" where
  "idx0 (x_min, y_min, x_max, y_max) = x_min"

fun idx2 :: "box \<Rightarrow> int" where
  "idx2 (x_min, y_min, x_max, y_max) = x_max"

text \<open>
  A Python \<open>dict\<close> from zone number to count. Python dictionaries iterate in
  insertion order and the overlay loop depends on it, so the model is an association
  list in insertion order.
\<close>

type_synonym occupancy = "(nat \<times> nat) list"

text \<open>
  One row of the detector output (\<open>Output shape is [1, 1, N, 7]\<close>): seven floats,
  read by \<open>preprocess_outputs\<close> as \<open>box[2]\<close> (the score) and \<open>box[3]\<close> to
  \<open>box[6]\<close> (the normalised corners). Floats are modelled by the real numbers they
  denote, with exact products.
\<close>

record det_row =
  b0 :: real
  b1 :: real
  b2 :: real
  b3 :: real
  b4 :: real
  b5 :: real
  b6 :: real

text \<open>
  A frame: \<open>image.shape[0]\<close> and \<open>image.shape[1]\<close>, and what has been drawn on it so
  far, in drawing order.
\<close>

datatype draw_cmd = Rectangle box | PutText string "int \<times> int"

record frame =
  shape0 :: int
  shape1 :: int
  drawn :: "draw_cmd list"

section \<open>class Queue\<close>

record Queue =
  queues :: "box list"

definition Queue_init :: Queue where
  "Queue_init = \<lparr>queues = []\<rparr>"

definition add_queue :: "Queue \<Rightarrow> box \<Rightarrow> Queue" where
  "add_queue self points = self\<lparr>queues := queues self @ [points]\<rparr>"

text \<open>\<open>d[k] += 1\<close>: raises \<open>KeyError\<close> when the key is missing, keeps the key's place.\<close>

fun dict_incr :: "occupancy \<Rightarrow> nat \<Rightarrow> py_error + occupancy" where
  "dict_incr [] k = Inl KeyError"
| "dict_incr ((k', v) # d) k =
     (if k' = k then Inr ((k', v + 1) # d)
      else (case dict_incr d k of
              Inl e \<Rightarrow> Inl e
            | Inr d' \<Rightarrow> Inr ((k', v) # d')))"

text \<open>The inner loop \<open>for i, q in enumerate(self.queues)\<close> for one detection.\<close>

fun check_coord :: "(nat \<times> box) list \<Rightarrow> box \<Rightarrow> occupancy \<Rightarrow> py_error + occupancy" where
  "check_coord [] coord d = Inr d"
| "check_coord ((i, q) # iqs) coord d =
     (if idx0 coord > idx0 q \<and> idx2 coord < idx2 q
      then (case dict_incr d (i + 1) of
              Inl e \<Rightarrow> Inl e
            | Inr d' \<Rightarrow> check_coord iqs coord d')
      else check_coord iqs coord d)"

text \<open>The outer loop \<open>for coord in coords\<close>.\<close>

fun check_loop :: "box list \<Rightarrow> box list \<Rightarrow> occupancy \<Rightarrow> py_error + occupancy" where
  "check_loop qs [] d = Inr d"
| "check_loop qs (coord # coords) d =
     (case check_coord (enumerate 0 qs) coord d of
        Inl e \<Rightarrow> Inl e
      | Inr d' \<Rightarrow> check_loop qs coords d')"

definition check_coords :: "Queue \<Rightarrow> box list \<Rightarrow> py_error + occupancy" where
  "check_coords self coords =
     check_loop (queues self) coords
       (map (\<lambda>k. (k + 1, 0)) [0..<length (queues self)])"

section \<open>class PersonDetect\<close>

text \<open>Python's \<open>int()\<close> of a float: truncation towards zero.\<close>

definition py_int :: "real \<Rightarrow> int" where
  "py_int x = (if 0 \<le> x then \<lfloor>x\<rfloor> else \<lceil>x\<rceil>)"

text \<open>
  \<open>preprocess_outputs\<close>; the first argument is \<open>self.threshold\<close>. The method also
  stores the frame's height and width in \<open>self\<close>; nothing reads them back but the
  method itself.
\<close>

fun preprocess_outputs :: "real \<Rightarrow> det_row list \<Rightarrow> frame \<Rightarrow> box list" where
  "preprocess_outputs threshold [] img = []"
| "preprocess_outputs threshold (box # outputs) img =
     (if b2 box \<ge> threshold
      then (py_int (b3 box * of_int (shape1 img)),
            py_int (b4 box * of_int (shape0 img)),
            py_int (b5 box * of_int (shape1 img)),
            py_int (b6 box * of_int (shape0 img)))
           # preprocess_outputs threshold outputs img
      else preprocess_outputs threshold outputs img)"

fun draw_outputs :: "box list \<Rightarrow> frame \<Rightarrow> frame" where
  "draw_outputs [] img = img"
| "draw_outputs (bounding_box # bounding_boxes) img =
     draw_outputs bounding_boxes (img\<lparr>drawn := drawn img @ [Rectangle bounding_box]\<rparr>)"

text \<open>
  \<open>predict\<close>. The inference engine is outside the program: the status returned by
  \<open>self.net.requests[0].wait(-1)\<close> and the output blob are arguments. The name
  \<open>bounding_boxes\<close> is bound only in the branch of status 0, so the \<open>return\<close>
  raises \<open>UnboundLocalError\<close> otherwise.
\<close>

definition predict :: "real \<Rightarrow> int \<Rightarrow> det_row list \<Rightarrow> frame \<Rightarrow> py_error + (box list \<times> frame)" where
  "predict threshold wait_status network_result img =
     (if wait_status = 0
      then (let bounding_boxes = preprocess_outputs threshold network_result img;
                img' = draw_outputs bounding_boxes img
            in Inr (bounding_boxes, img'))
      else Inl UnboundLocalError)"

section \<open>main\<close>

text \<open>
  Loading the zones: \<open>np.load\<close> is outside the program, its outcome is the argument.
  The bare \<open>except\<close> prints a message and the run goes on with the zones added so
  far; \<open>add_queue\<close> cannot raise, so that is none when \<open>np.load\<close> fails. The second
  component is what was printed.
\<close>

definition load_queues :: "py_error + box list \<Rightarrow> Queue \<times> string list" where
  "load_queues np_load =
     (case np_load of
        Inl e \<Rightarrow> (Queue_init, [''error loading queue param file''])
      | Inr queue_param \<Rightarrow> (foldl add_queue Queue_init queue_param, []))"

text \<open>The decimal digits that an f-string gives for a non-negative \<open>int\<close>.\<close>

fun str_nat :: "nat \<Rightarrow> string" where
  "str_nat n =
     (if n < 10 then [char_of (48 + n)]
      else str_nat (n div 10) @ [char_of (48 + n mod 10)])"

declare str_nat.simps [simp del]

text \<open>
  The overlay loop \<open>for k, v in num_people.items()\<close>, with its loop variables
  \<open>out_text\<close> and \<open>y_pixel\<close>; \<open>max_people\<close> is \<open>int(max_people)\<close>.
\<close>

fun overlay_loop :: "occupancy \<Rightarrow> int \<Rightarrow> string \<Rightarrow> int \<Rightarrow> frame \<Rightarrow> frame" where
  "overlay_loop [] max_people out_text y_pixel img = img"
| "overlay_loop ((k, v) # num_people) max_people out_text y_pixel img =
     (let out_text1 = out_text @ ''No. of People in Queue '' @ str_nat k @ '' is '' @ str_nat v @ '' '';
          out_text2 = (if int v \<ge> max_people
                       then out_text1 @ '' Queue full; Please move to next Queue ''
                       else out_text1);
          img' = img\<lparr>drawn := drawn img @ [PutText out_text2 (15, y_pixel)]\<rparr>
      in overlay_loop num_people max_people [] (y_pixel + 40) img')"

definition overlay :: "occupancy \<Rightarrow> int \<Rightarrow> frame \<Rightarrow> frame" where
  "overlay num_people max_people img = overlay_loop num_people max_people [] 25 img"

text \<open>
  Python's \<open>round(x, 1)\<close>: to the nearest multiple of one tenth, a tie to the even one.
\<close>

definition round_half_even :: "real \<Rightarrow> int" where
  "round_half_even x =
     (let f = \<lfloor>x\<rfloor>; r = x - of_int f
      in if r < 1 / 2 then f
         else if r > 1 / 2 then f + 1
         else if even f then f else f + 1)"

definition py_round1 :: "real \<Rightarrow> real" where
  "py_round1 x = of_int (round_half_even (x * 10)) / 10"

text \<open>
  The end of \<open>main\<close>, after the frame loop: \<open>total_time\<close> is the difference of the two
  clock readings, \<open>counter\<close> the number of frames read. The result is the list of the
  values written to \<open>stats.txt\<close>, one per line; the division raises on a zero divisor,
  as Python's float division does.
\<close>

definition write_stats :: "real \<Rightarrow> nat \<Rightarrow> real \<Rightarrow> py_error + real list" where
  "write_stats total_time counter total_model_load_time =
     (let total_inference_time = py_round1 total_time
      in if total_inference_time = 0 then Inl ZeroDivisionError
         else (let fps = real counter / total_inference_time
               in Inr [total_inference_time, fps, total_model_load_time]))"

text \<open>
  The \<open>except Exception as e\<close> around the loop and the statistics: the message and
  the exception are printed and \<open>stats.txt\<close> is not written (\<open>None\<close>).
\<close>

definition finish_run ::
  "real \<Rightarrow> nat \<Rightarrow> real \<Rightarrow> real list option \<times> (string \<times> py_error) list" where
  "finish_run total_time counter total_model_load_time =
     (case write_stats total_time counter total_model_load_time of
        Inl e \<Rightarrow> (None, [(''Could not run Inference: '', e)])
      | Inr ls \<Rightarrow> (Some ls, []))"

text \<open>
  Shorthand for the statements below: the number of detections that \<open>check_coords\<close>
  counts for a zone, and the text that the overlay loop builds for one dictionary entry.
\<close>

abbreviation zone_count :: "box \<Rightarrow> box list \<Rightarrow> nat" where
  "zone_count z coords \<equiv>
     length (filter (\<lambda>coord. idx0 coord > idx0 z \<and> idx2 coord < idx2 z) coords)"

abbreviation overlay_text :: "nat \<Rightarrow> nat \<Rightarrow> int \<Rightarrow> string" where
  "overlay_text k v max_people \<equiv>
     ''No. of People in Queue '' @ str_nat k @ '' is '' @ str_nat v @ '' '' @
     (if int v \<ge> max_people then '' Queue full; Please move to next Queue '' else [])"

section \<open>Zone occupancy: the loops in closed form\<close>

text \<open>
  The dictionary built by \<open>check_coords\<close> has the keys \<open>i + 1\<close> for the positions
  \<open>i\<close> of the registry, so an increment finds its key and changes one count.
\<close>

lemma dict_incr_shape:
  "distinct js \<Longrightarrow> j \<in> set js \<Longrightarrow>
   dict_incr (map (\<lambda>i. (Suc i, f i)) js) (Suc j) =
     Inr (map (\<lambda>i. (Suc i, (f(j := Suc (f j))) i)) js)"
  by (induction js) auto

lemma check_coord_shape:
  "distinct js \<Longrightarrow> {k..<k + length qs} \<subseteq> set js \<Longrightarrow>
   check_coord (enumerate k qs) coord (map (\<lambda>i. (Suc i, f i)) js) =
     Inr (map (\<lambda>i. (Suc i, f i + (if k \<le> i \<and> i < k + length qs \<and>
                                        idx0 coord > idx0 (qs ! (i - k)) \<and>
                                        idx2 coord < idx2 (qs ! (i - k)) then 1 else 0))) js)"
proof (induction qs arbitrary: k f)
  case Nil
  then show ?case by simp
next
  case (Cons q qs)
  have kin: "k \<in> set js" using Cons.prems(2) by auto
  have sub: "{Suc k..<Suc k + length qs} \<subseteq> set js" using Cons.prems(2) by auto
  show ?case
  proof (cases "idx0 coord > idx0 q \<and> idx2 coord < idx2 q")
    case True
    then show ?thesis
      using Cons.IH[OF Cons.prems(1) sub, of "f(k := Suc (f k))"]
        dict_incr_shape[OF Cons.prems(1) kin, of f]
      by (auto simp: nth_Cons' Suc_diff_le intro!: map_cong)
  next
    case False
    then show ?thesis
      using Cons.IH[OF Cons.prems(1) sub, of f]
      by (auto simp: nth_Cons' intro!: map_cong)
  qed
qed

lemma check_coord_all:
  "check_coord (enumerate 0 qs) coord (map (\<lambda>i. (Suc i, f i)) [0..<length qs]) =
     Inr (map (\<lambda>i. (Suc i, f i + (if idx0 coord > idx0 (qs ! i) \<and> idx2 coord < idx2 (qs ! i)
                                   then 1 else 0))) [0..<length qs])"
proof -
  have "check_coord (enumerate 0 qs) coord (map (\<lambda>i. (Suc i, f i)) [0..<length qs]) =
     Inr (map (\<lambda>i. (Suc i, f i + (if 0 \<le> i \<and> i < 0 + length qs \<and>
                                        idx0 coord > idx0 (qs ! (i - 0)) \<and>
                                        idx2 coord < idx2 (qs ! (i - 0)) then 1 else 0)))
              [0..<length qs])"
    by (rule check_coord_shape) auto
  also have "\<dots> = Inr (map (\<lambda>i. (Suc i, f i + (if idx0 coord > idx0 (qs ! i) \<and>
                                                  idx2 coord < idx2 (qs ! i) then 1 else 0)))
                         [0..<length qs])"
    by simp
  finally show ?thesis .
qed

lemma check_loop_shape:
  "check_loop qs coords (map (\<lambda>i. (Suc i, f i)) [0..<length qs]) =
     Inr (map (\<lambda>i. (Suc i, f i + length (filter (\<lambda>coord. idx0 coord > idx0 (qs ! i) \<and>
                                                        idx2 coord < idx2 (qs ! i)) coords)))
              [0..<length qs])"
proof (induction coords arbitrary: f)
  case Nil
  then show ?case by simp
next
  case (Cons c coords)
  show ?case
    by (simp add: check_coord_all Cons.IH)
qed

lemma check_coords_closed:
  "check_coords self coords =
     Inr (map (\<lambda>i. (Suc i, length (filter (\<lambda>coord. idx0 coord > idx0 (queues self ! i) \<and>
                                                  idx2 coord < idx2 (queues self ! i)) coords)))
              [0..<length (queues self)])"
proof -
  have "check_coords self coords =
      check_loop (queues self) coords
        (map (\<lambda>i. (Suc i, (\<lambda>_. 0) i)) [0..<length (queues self)])"
    unfolding check_coords_def by simp
  also have "\<dots> = Inr (map (\<lambda>i. (Suc i, (\<lambda>_. 0) i +
                 length (filter (\<lambda>coord. idx0 coord > idx0 (queues self ! i) \<and>
                                         idx2 coord < idx2 (queues self ! i)) coords)))
              [0..<length (queues self)])"
    by (rule check_loop_shape)
  finally show ?thesis by simp
qed

lemma enumerate_upt: "enumerate 0 xs = map (\<lambda>i. (i, xs ! i)) [0..<length xs]"
  by (rule nth_equalityI) (simp_all add: nth_enumerate_eq)

lemma count_by_fields:
  "length (filter (\<lambda>coord. idx0 coord > idx0 z \<and> idx2 coord < idx2 z) coords) =
   (case z of (z_xmin, z_ymin, z_xmax, z_ymax) \<Rightarrow>
      length (filter (\<lambda>(d_xmin, d_ymin, d_xmax, d_ymax). d_xmin > z_xmin \<and> d_xmax < z_xmax)
                coords))"
proof -
  obtain a b c d where z: "z = (a, b, c, d)" by (cases z)
  have "(\<lambda>coord. idx0 coord > a \<and> idx2 coord < c) =
        (\<lambda>(d_xmin, d_ymin, d_xmax, d_ymax). d_xmin > a \<and> d_xmax < c)"
    by (rule ext) (simp split: prod.split)
  then show ?thesis by (simp add: z)
qed

lemma check_coords_by_fields:
  "check_coords self coords =
     Inr (map (\<lambda>(i, (z_xmin, z_ymin, z_xmax, z_ymax)).
                 (i + 1, length (filter (\<lambda>(d_xmin, d_ymin, d_xmax, d_ymax).
                                            d_xmin > z_xmin \<and> d_xmax < z_xmax) coords)))
              (enumerate 0 (queues self)))"
proof -
  have "map (\<lambda>(i, (z_xmin, z_ymin, z_xmax, z_ymax)).
                 (i + 1, length (filter (\<lambda>(d_xmin, d_ymin, d_xmax, d_ymax).
                                            d_xmin > z_xmin \<and> d_xmax < z_xmax) coords)))
              (enumerate 0 (queues self)) =
        map (\<lambda>i. (Suc i, length (filter (\<lambda>coord. idx0 coord > idx0 (queues self ! i) \<and>
                                                  idx2 coord < idx2 (queues self ! i)) coords)))
              [0..<length (queues self)]"
    unfolding enumerate_upt map_map
    by (rule map_cong) (simp_all add: count_by_fields split: prod.split)
  then show ?thesis
    by (simp only: check_coords_closed)
qed

section \<open>Helper facts on the other loops\<close>

lemma upt_shift: "map f [0..<Suc n] = f 0 # map (\<lambda>j. f (Suc j)) [0..<n]"
  by (simp add: upt_conv_Cons map_Suc_upt[symmetric] o_def del: upt_Suc)

lemma overlay_loop_shape:
  "overlay_loop num_people max_people [] y_pixel img =
     img\<lparr>drawn := drawn img @
       map (\<lambda>j. PutText (''No. of People in Queue '' @ str_nat (fst (num_people ! j)) @ '' is '' @
                         str_nat (snd (num_people ! j)) @ '' '' @
                         (if int (snd (num_people ! j)) \<ge> max_people
                          then '' Queue full; Please move to next Queue '' else []))
                    (15, y_pixel + 40 * int j))
           [0..<length num_people]\<rparr>"
proof (induction num_people arbitrary: y_pixel img)
  case Nil
  then show ?case by simp
next
  case (Cons kv num_people)
  obtain k v where kv: "kv = (k, v)" by (cases kv)
  have sh: "y_pixel + 40 + 40 * int j = y_pixel + 40 * int (Suc j)" for j by simp
  show ?case
    unfolding kv length_Cons upt_shift
    by (simp add: Let_def Cons.IH sh del: of_nat_Suc)
qed

lemma preprocess_outputs_append:
  "preprocess_outputs T (xs @ ys) img = preprocess_outputs T xs img @ preprocess_outputs T ys img"
  by (induction xs) simp_all

lemma preprocess_outputs_map_filter:
  "preprocess_outputs T outputs img =
     map (\<lambda>box. (py_int (b3 box * of_int (shape1 img)), py_int (b4 box * of_int (shape0 img)),
                  py_int (b5 box * of_int (shape1 img)), py_int (b6 box * of_int (shape0 img))))
         (filter (\<lambda>box. T \<le> b2 box) outputs)"
  by (induction outputs) simp_all

lemma draw_outputs_drawn:
  "draw_outputs bounding_boxes img = img\<lparr>drawn := drawn img @ map Rectangle bounding_boxes\<rparr>"
  by (induction bounding_boxes arbitrary: img) simp_all

lemma foldl_add_queue: "queues (foldl add_queue self rects) = queues self @ rects"
  by (induction rects arbitrary: self) (simp_all add: add_queue_def)

lemma overlay_check_coords:
  "overlay (map (\<lambda>i. (Suc i, zone_count (qs ! i) coords)) [0..<length qs]) max_people img =
     img\<lparr>drawn := drawn img @
       map (\<lambda>i. PutText (overlay_text (i + 1) (zone_count (qs ! i) coords) max_people)
                         (15, 25 + 40 * int i))
           [0..<length qs]\<rparr>"
  unfolding overlay_def overlay_loop_shape
  by simp

text \<open>
  When the rounded total time is not zero, \<open>stats.txt\<close> gets its three lines: the
  rounded total, the frame count divided by the rounded total, and the model load time.
\<close>

lemma write_stats_lines:
  "py_round1 total_time \<noteq> 0 \<Longrightarrow>
   write_stats total_time counter total_model_load_time =
     Inr [py_round1 total_time, real counter / py_round1 total_time, total_model_load_time]"
  by (simp add: write_stats_def Let_def)

section \<open>The claims\<close>

text \<open>
  C1. For every registered zone and every list of detections, \<open>check_coords\<close> gives the
  zone the number of detections \<open>d\<close> with \<open>d.xmin > z.xmin\<close> and \<open>d.xmax < z.xmax\<close>:
  both comparisons are strict and no vertical coordinate, of the zone or of the
  detection, takes part. A detection that sticks out of the zone vertically counts; one
  whose \<open>xmin\<close> equals the zone's \<open>xmin\<close>, or whose \<open>xmax\<close> equals the zone's \<open>xmax\<close>,
  does not.
\<close>

theorem check_coords_counts_strict_horizontal:
  "check_coords self coords =
     Inr (map (\<lambda>(i, (z_xmin, z_ymin, z_xmax, z_ymax)).
                 (i + 1, length (filter (\<lambda>(d_xmin, d_ymin, d_xmax, d_ymax).
                                            d_xmin > z_xmin \<and> d_xmax < z_xmax) coords)))
              (enumerate 0 (queues self)))
   \<and> check_coords \<lparr>queues = [(0, 0, 10, 10)]\<rparr> [(5, -100, 8, 1000)] = Inr [(1, 1)]
   \<and> check_coords \<lparr>queues = [(0, 0, 10, 10)]\<rparr> [(0, 2, 8, 5), (5, 2, 10, 5)] = Inr [(1, 0)]"
proof -
  have "check_coords \<lparr>queues = [(0, 0, 10, 10)]\<rparr> [(5, -100, 8, 1000)] = Inr [(1, 1)]"
    by (simp add: check_coords_def)
  moreover have
    "check_coords \<lparr>queues = [(0, 0, 10, 10)]\<rparr> [(0, 2, 8, 5), (5, 2, 10, 5)] = Inr [(1, 0)]"
    by (simp add: check_coords_def)
  ultimately show ?thesis
    using check_coords_by_fields[of self coords] by simp
qed

text \<open>
  C2. Each row of the detector output gives one detection when its score \<open>box[2]\<close> is
  greater than or equal to the threshold and none otherwise, wherever it stands in the
  output; a row whose score equals the threshold is kept. The function has no error
  branch: rows below the threshold are skipped.
\<close>

theorem preprocess_outputs_threshold_inclusive:
  "preprocess_outputs T (pre @ box # post) img =
     preprocess_outputs T pre img @ preprocess_outputs T [box] img @ preprocess_outputs T post img
   \<and> length (preprocess_outputs T [box] img) = (if T \<le> b2 box then 1 else 0)
   \<and> length (preprocess_outputs (b2 box) [box] img) = 1
   \<and> length (preprocess_outputs T outputs img) = length (filter (\<lambda>box. T \<le> b2 box) outputs)"
proof -
  have "preprocess_outputs T (pre @ [box] @ post) img =
     preprocess_outputs T pre img @ preprocess_outputs T [box] img @ preprocess_outputs T post img"
    by (simp only: preprocess_outputs_append)
  moreover have
    "length (preprocess_outputs T outputs img) = length (filter (\<lambda>box. T \<le> b2 box) outputs)"
    by (simp add: preprocess_outputs_map_filter)
  ultimately show ?thesis by simp
qed

text \<open>
  C3, as stated (each coordinate is rounded to the nearest pixel), fails: with the
  frame 544 by 320, threshold 0.5 and \<open>x1 = 3/128\<close>, the product is 12.75, which
  \<open>int()\<close> turns into 12 and rounding into 13.
\<close>

theorem preprocess_outputs_not_rounded:
  "preprocess_outputs (1 / 2)
     [\<lparr>b0 = 0, b1 = 1, b2 = 9 / 10, b3 = 3 / 128, b4 = 1 / 5, b5 = 3 / 10, b6 = 2 / 5\<rparr>]
     \<lparr>shape0 = 320, shape1 = 544, drawn = []\<rparr>
   \<noteq> [(round (3 / 128 * 544 :: real), round (1 / 5 * 320 :: real),
        round (3 / 10 * 544 :: real), round (2 / 5 * 320 :: real))]
   \<and> preprocess_outputs (1 / 2)
     [\<lparr>b0 = 0, b1 = 1, b2 = 9 / 10, b3 = 3 / 128, b4 = 1 / 5, b5 = 3 / 10, b6 = 2 / 5\<rparr>]
     \<lparr>shape0 = 320, shape1 = 544, drawn = []\<rparr> = [(12, 64, 163, 128)]
   \<and> round (3 / 128 * 544 :: real) = 13"
  by (simp add: py_int_def round_def)

text \<open>
  C3, amended. For every row kept by the threshold the box is
  \<open>(int(x1*W), int(y1*H), int(x2*W), int(y2*H))\<close>, where \<open>int\<close> truncates towards
  zero, in the order of the rows; with \<open>W = 544\<close>, \<open>H = 320\<close>, threshold 0.5, the row
  with score 0.9 and corners 0.1, 0.2, 0.3, 0.4 gives \<open>(54, 64, 163, 128)\<close>.
\<close>

theorem preprocess_outputs_truncates:
  "preprocess_outputs T outputs img =
     map (\<lambda>box. (py_int (b3 box * of_int (shape1 img)), py_int (b4 box * of_int (shape0 img)),
                  py_int (b5 box * of_int (shape1 img)), py_int (b6 box * of_int (shape0 img))))
         (filter (\<lambda>box. T \<le> b2 box) outputs)
   \<and> py_int x = (if x < 0 then - \<lfloor>\<bar>x\<bar>\<rfloor> else \<lfloor>\<bar>x\<bar>\<rfloor>)
   \<and> preprocess_outputs (1 / 2)
        [\<lparr>b0 = 0, b1 = 1, b2 = 9 / 10, b3 = 1 / 10, b4 = 1 / 5, b5 = 3 / 10, b6 = 2 / 5\<rparr>]
        \<lparr>shape0 = 320, shape1 = 544, drawn = []\<rparr> = [(54, 64, 163, 128)]"
proof -
  have "py_int x = (if x < 0 then - \<lfloor>\<bar>x\<bar>\<rfloor> else \<lfloor>\<bar>x\<bar>\<rfloor>)"
    by (simp add: py_int_def ceiling_def)
  moreover have "preprocess_outputs (1 / 2)
        [\<lparr>b0 = 0, b1 = 1, b2 = 9 / 10, b3 = 1 / 10, b4 = 1 / 5, b5 = 3 / 10, b6 = 2 / 5\<rparr>]
        \<lparr>shape0 = 320, shape1 = 544, drawn = []\<rparr> = [(54, 64, 163, 128)]"
    by (simp add: py_int_def)
  ultimately show ?thesis
    using preprocess_outputs_map_filter[of T outputs img] by simp
qed

text \<open>
  C4. For every registry and every list of detections, \<open>check_coords\<close> returns a
  dictionary whose keys are exactly \<open>1, ..., N\<close> in registration order, one per zone;
  a zone that no detection qualifies for has count 0; without detections every count is
  0; with no zone the dictionary is empty.
\<close>

theorem check_coords_one_entry_per_zone:
  "(\<exists>d. check_coords self coords = Inr d \<and>
        map fst d = [1..<length (queues self) + 1] \<and>
        (\<forall>i<length (queues self).
           filter (\<lambda>coord. idx0 coord > idx0 (queues self ! i) \<and>
                           idx2 coord < idx2 (queues self ! i)) coords = [] \<longrightarrow>
           d ! i = (i + 1, 0)))
   \<and> check_coords self [] = Inr (map (\<lambda>k. (k + 1, 0)) [0..<length (queues self)])
   \<and> check_coords \<lparr>queues = []\<rparr> coords = Inr []"
proof -
  let ?d = "map (\<lambda>i. (Suc i, length (filter (\<lambda>coord. idx0 coord > idx0 (queues self ! i) \<and>
                                                  idx2 coord < idx2 (queues self ! i)) coords)))
              [0..<length (queues self)]"
  have a: "check_coords self coords = Inr ?d" by (rule check_coords_closed)
  have b: "map fst ?d = [1..<length (queues self) + 1]"
    by (simp add: o_def map_Suc_upt)
  have c: "\<forall>i<length (queues self).
           filter (\<lambda>coord. idx0 coord > idx0 (queues self ! i) \<and>
                           idx2 coord < idx2 (queues self ! i)) coords = [] \<longrightarrow>
           ?d ! i = (i + 1, 0)"
    by simp
  have e: "check_coords self [] = Inr (map (\<lambda>k. (k + 1, 0)) [0..<length (queues self)])"
    by (simp add: check_coords_def)
  have f: "check_coords \<lparr>queues = []\<rparr> coords = Inr []"
    by (simp add: check_coords_closed)
  from a b c have "\<exists>d. check_coords self coords = Inr d \<and>
        map fst d = [1..<length (queues self) + 1] \<and>
        (\<forall>i<length (queues self).
           filter (\<lambda>coord. idx0 coord > idx0 (queues self ! i) \<and>
                           idx2 coord < idx2 (queues self ! i)) coords = [] \<longrightarrow>
           d ! i = (i + 1, 0))"
    by blast
  with e f show ?thesis by blast
qed

theorem check_coords_one_entry_per_zone_witness:
  "\<exists>d. check_coords \<lparr>queues = [(0, 0, 10, 10), (20, 0, 30, 10)]\<rparr> [(2, 0, 5, 5)] = Inr d \<and>
       map fst d = [1, 2] \<and> d ! 1 = (2, 0)"
proof -
  let ?s = "\<lparr>queues = [(0, 0, 10, 10), (20, 0, 30, 10)]\<rparr>"
  let ?c = "[(2, 0, 5, 5)] :: box list"
  from check_coords_one_entry_per_zone[of ?s ?c] obtain d where
    d: "check_coords ?s ?c = Inr d" and k: "map fst d = [1..<length (queues ?s) + 1]" and
    z: "\<forall>i<length (queues ?s).
           filter (\<lambda>coord. idx0 coord > idx0 (queues ?s ! i) \<and>
                           idx2 coord < idx2 (queues ?s ! i)) ?c = [] \<longrightarrow>
           d ! i = (i + 1, 0)"
    by blast
  have "d ! 1 = (1 + 1, 0)"
    using z[rule_format, of 1] by simp
  moreover have "map fst d = [1, 2]"
    using k by (simp add: upt_rec)
  ultimately show ?thesis using d by simp
qed

text \<open>
  C5, as stated (a rectangle with \<open>x_max <= x_min\<close> or \<open>y_max <= y_min\<close> is refused),
  fails: \<open>add_queue\<close> registers \<open>(10, 0, 5, 0)\<close> and \<open>(0, 7, 5, 7)\<close>.
\<close>

theorem add_queue_accepts_degenerate:
  "queues (add_queue Queue_init (10, 0, 5, 0)) = [(10, 0, 5, 0)]
   \<and> queues (add_queue Queue_init (0, 7, 5, 7)) = [(0, 7, 5, 7)]"
  by (simp add: add_queue_def Queue_init_def)

text \<open>
  C5, amended. \<open>add_queue\<close> appends every rectangle it is given to the registry, without
  a check and without an error; registering a list of rectangles one after the other
  appends them in order.
\<close>

theorem add_queue_appends_unchecked:
  "queues (add_queue self points) = queues self @ [points]
   \<and> queues (foldl add_queue self rects) = queues self @ rects"
  by (simp add: add_queue_def foldl_add_queue)

text \<open>
  C6. The claim that the run ends with three values in \<open>stats.txt\<close> does not hold of the
  code when the total time rounds to 0.0 (no frame read, 10 microseconds between the two
  clock readings): the division \<open>counter/total_inference_time\<close> raises, the
  \<open>except\<close> around the loop prints its message, and nothing is written.
\<close>

theorem write_stats_zero_division:
  "write_stats (1 / 100000) 0 (3 / 2) = Inl ZeroDivisionError
   \<and> finish_run (1 / 100000) 0 (3 / 2) =
       (None, [(''Could not run Inference: '', ZeroDivisionError)])"
  by (simp add: finish_run_def write_stats_def py_round1_def round_half_even_def)

text \<open>
  C7. The overlay draws one line per zone, in registration order: the text
  \<open>No. of People in Queue K is V\<close> with \<open>K\<close> the 1-based position of the zone and
  \<open>V\<close> its count, followed on the same line by the \<open>Queue full\<close> notice when
  \<open>V >= max_people\<close>; the first line is at \<open>y = 25\<close> and each next one 40 pixels
  lower. Registering two zones in the other order exchanges the lines on which their
  counts are drawn.
\<close>

theorem overlay_lines_in_registration_order:
  "(\<exists>d. check_coords self coords = Inr d \<and>
        overlay d max_people img =
          img\<lparr>drawn := drawn img @
            map (\<lambda>i. PutText (overlay_text (i + 1) (zone_count (queues self ! i) coords) max_people)
                              (15, 25 + 40 * int i))
                [0..<length (queues self)]\<rparr>)
   \<and> (\<exists>d d'. check_coords \<lparr>queues = [z1, z2]\<rparr> coords = Inr d \<and>
             check_coords \<lparr>queues = [z2, z1]\<rparr> coords = Inr d' \<and>
             drawn (overlay d max_people \<lparr>shape0 = h, shape1 = w, drawn = []\<rparr>) =
               [PutText (overlay_text 1 (zone_count z1 coords) max_people) (15, 25),
                PutText (overlay_text 2 (zone_count z2 coords) max_people) (15, 65)] \<and>
             drawn (overlay d' max_people \<lparr>shape0 = h, shape1 = w, drawn = []\<rparr>) =
               [PutText (overlay_text 1 (zone_count z2 coords) max_people) (15, 25),
                PutText (overlay_text 2 (zone_count z1 coords) max_people) (15, 65)])
   \<and> drawn (overlay [(1, 3), (2, 0)] 2 \<lparr>shape0 = 320, shape1 = 544, drawn = []\<rparr>) =
       [PutText ''No. of People in Queue 1 is 3  Queue full; Please move to next Queue '' (15, 25),
        PutText ''No. of People in Queue 2 is 0 '' (15, 65)]"
proof -
  have gen: "\<exists>d. check_coords s coords = Inr d \<and>
        overlay d max_people f =
          f\<lparr>drawn := drawn f @
            map (\<lambda>i. PutText (overlay_text (i + 1) (zone_count (queues s ! i) coords) max_people)
                              (15, 25 + 40 * int i))
                [0..<length (queues s)]\<rparr>" for s f
    using check_coords_closed[of s coords] overlay_check_coords[of "queues s" coords max_people f]
    by blast
  have two: "\<exists>d. check_coords \<lparr>queues = [a, b]\<rparr> coords = Inr d \<and>
        drawn (overlay d max_people \<lparr>shape0 = h, shape1 = w, drawn = []\<rparr>) =
               [PutText (overlay_text 1 (zone_count a coords) max_people) (15, 25),
                PutText (overlay_text 2 (zone_count b coords) max_people) (15, 65)]" for a b
  proof -
    from gen[of "\<lparr>queues = [a, b]\<rparr>" "\<lparr>shape0 = h, shape1 = w, drawn = []\<rparr>"]
    obtain d where d: "check_coords \<lparr>queues = [a, b]\<rparr> coords = Inr d"
      and o: "overlay d max_people \<lparr>shape0 = h, shape1 = w, drawn = []\<rparr> =
          \<lparr>shape0 = h, shape1 = w, drawn = []\<rparr>\<lparr>drawn := drawn \<lparr>shape0 = h, shape1 = w, drawn = []\<rparr> @
            map (\<lambda>i. PutText (overlay_text (i + 1) (zone_count (queues \<lparr>queues = [a, b]\<rparr> ! i) coords) max_people)
                              (15, 25 + 40 * int i))
                [0..<length (queues \<lparr>queues = [a, b]\<rparr>)]\<rparr>"
      by blast
    have "drawn (overlay d max_people \<lparr>shape0 = h, shape1 = w, drawn = []\<rparr>) =
               [PutText (overlay_text 1 (zone_count a coords) max_people) (15, 25),
                PutText (overlay_text 2 (zone_count b coords) max_people) (15, 65)]"
      unfolding o by (simp add: upt_rec numeral_2_eq_2)
    with d show ?thesis by blast
  qed
  have ex: "drawn (overlay [(1, 3), (2, 0)] 2 \<lparr>shape0 = 320, shape1 = 544, drawn = []\<rparr>) =
       [PutText ''No. of People in Queue 1 is 3  Queue full; Please move to next Queue '' (15, 25),
        PutText ''No. of People in Queue 2 is 0 '' (15, 65)]"
    by code_simp
  from two[of z1 z2] two[of z2 z1] gen[of self img] ex show ?thesis by blast
qed

text \<open>
  C8. When \<open>np.load\<close> raises, the run prints a message and goes on with an empty
  registry, and \<open>check_coords\<close> then returns the empty dictionary for every list of
  detections.
\<close>

theorem load_failure_empty_registry:
  "load_queues (Inl e) = (\<lparr>queues = []\<rparr>, [''error loading queue param file''])
   \<and> check_coords (fst (load_queues (Inl e))) coords = Inr []"
  by (simp add: load_queues_def Queue_init_def check_coords_closed)

text \<open>
  C9. When \<open>wait\<close> returns 0, \<open>predict\<close> returns the boxes of \<open>preprocess_outputs\<close>
  and the frame with one rectangle drawn for each of them; for every other status the
  \<open>return\<close> reads the unbound name \<open>bounding_boxes\<close>.
\<close>

theorem predict_unbound_unless_status_zero:
  "predict T 0 network_result img =
     Inr (preprocess_outputs T network_result img,
          img\<lparr>drawn := drawn img @ map Rectangle (preprocess_outputs T network_result img)\<rparr>)
   \<and> (wait_status \<noteq> 0 \<longrightarrow> predict T wait_status network_result img = Inl UnboundLocalError)"
  by (simp add: predict_def draw_outputs_drawn Let_def)

theorem predict_unbound_unless_status_zero_witness:
  "(1::int) \<noteq> 0 \<and>
   predict (3 / 5) 1 [] \<lparr>shape0 = 320, shape1 = 544, drawn = []\<rparr> = Inl UnboundLocalError"
  using predict_unbound_unless_status_zero
          [of "3 / 5" "[]" "\<lparr>shape0 = 320, shape1 = 544, drawn = []\<rparr>" 1]
  by simp

text \<open>
  C10. A detection that lies strictly inside several zones horizontally adds one to the
  count of each of them, so the counts of a frame can add up to more than the number of
  its detections: one detection inside two nested zones gives the counts 1 and 1.
\<close>

theorem detection_counted_in_every_containing_zone:
  "(\<exists>d d'. check_coords self coords = Inr d \<and> check_coords self (coords @ [c]) = Inr d' \<and>
      (\<forall>i<length (queues self).
         idx0 c > idx0 (queues self ! i) \<and> idx2 c < idx2 (queues self ! i) \<longrightarrow>
         d' ! i = (i + 1, snd (d ! i) + 1)))
   \<and> (\<exists>d. check_coords \<lparr>queues = [(0, 0, 100, 100), (10, 0, 90, 100)]\<rparr> [(20, 0, 30, 10)] = Inr d \<and>
          length [(20, 0, 30, 10) :: box] < sum_list (map snd d))"
proof -
  have a: "check_coords \<lparr>queues = [(0, 0, 100, 100), (10, 0, 90, 100)]\<rparr> [(20, 0, 30, 10)] =
           Inr [(1, 1), (2, 1)]"
    by (simp add: check_coords_def)
  have b: "\<exists>d. check_coords \<lparr>queues = [(0, 0, 100, 100), (10, 0, 90, 100)]\<rparr> [(20, 0, 30, 10)] = Inr d \<and>
          length [(20, 0, 30, 10) :: box] < sum_list (map snd d)"
    unfolding a by simp
  let ?d = "\<lambda>cs. map (\<lambda>i. (Suc i, length (filter (\<lambda>coord. idx0 coord > idx0 (queues self ! i) \<and>
                                                  idx2 coord < idx2 (queues self ! i)) cs)))
              [0..<length (queues self)]"
  have c1: "check_coords self coords = Inr (?d coords)" by (rule check_coords_closed)
  have c2: "check_coords self (coords @ [c]) = Inr (?d (coords @ [c]))" by (rule check_coords_closed)
  have c3: "\<forall>i<length (queues self).
         idx0 c > idx0 (queues self ! i) \<and> idx2 c < idx2 (queues self ! i) \<longrightarrow>
         ?d (coords @ [c]) ! i = (i + 1, snd (?d coords ! i) + 1)"
    by simp
  from c1 c2 c3 have "\<exists>d d'. check_coords self coords = Inr d \<and> check_coords self (coords @ [c]) = Inr d' \<and>
      (\<forall>i<length (queues self).
         idx0 c > idx0 (queues self ! i) \<and> idx2 c < idx2 (queues self ! i) \<longrightarrow>
         d' ! i = (i + 1, snd (d ! i) + 1))"
    by blast
  with b show ?thesis by blast
qed

theorem detection_counted_in_every_containing_zone_witness:
  "\<exists>d'. check_coords \<lparr>queues = [(0, 0, 100, 100), (10, 0, 90, 100)]\<rparr> ([] @ [(20, 0, 30, 10)]) = Inr d' \<and>
        d' ! 0 = (1, 1) \<and> d' ! 1 = (2, 1)"
proof -
  let ?s = "\<lparr>queues = [(0, 0, 100, 100), (10, 0, 90, 100)]\<rparr>"
  let ?c = "(20, 0, 30, 10) :: box"
  from detection_counted_in_every_containing_zone[of ?s "[]" ?c] obtain d d' where
    d: "check_coords ?s [] = Inr d" and d': "check_coords ?s ([] @ [?c]) = Inr d'" and
    z: "\<forall>i<length (queues ?s).
         idx0 ?c > idx0 (queues ?s ! i) \<and> idx2 ?c < idx2 (queues ?s ! i) \<longrightarrow>
         d' ! i = (i + 1, snd (d ! i) + 1)"
    by blast
  have dv: "d = [(1, 0), (2, 0)]" using d by (auto simp: check_coords_def)
  have "d' ! 0 = (0 + 1, snd (d ! 0) + 1)" using z[rule_format, of 0] by simp
  moreover have "d' ! 1 = (1 + 1, snd (d ! 1) + 1)" using z[rule_format, of 1] by simp
  ultimately show ?thesis using d' dv by simp
qed

end
